theory Spec2Isabelle
  imports Main "HOL-Library.Sublist"
begin

section \<open>The generated header \<^verbatim>\<open>GeneratedAssetSymbols.h\<close>\<close>

text \<open>
  The header consists of three file-scope declarations of the shape
  \<^verbatim>\<open>/// The "X" asset catalog image resource.\<close>
  \<^verbatim>\<open>static NSString * const ACImageNameX AC_SWIFT_PRIVATE = @"X";\<close>
  and of the macro \<^verbatim>\<open>AC_SWIFT_PRIVATE\<close>, which the preprocessor expands to
  \<^verbatim>\<open>__attribute__((swift_private))\<close> when \<^verbatim>\<open>__has_attribute(swift_private)\<close>
  holds and to nothing otherwise.

  A declaration is a record of what the source line says: the storage class, the
  \<^verbatim>\<open>const\<close> qualifier of the declared pointer, the identifier, the attributes the
  macro expands to, the characters of the \<^verbatim>\<open>@"..."\<close> literal that initialises it, and
  the text of the documentation comment above it.
\<close>

record decl =
  storage_static :: bool
  const_qualified :: bool
  ident :: string
  attributes :: "string list"
  initializer :: string
  doc_comment :: string

text \<open>The double quote character, which delimits the resource name in a documentation comment.\<close>

definition dquote :: char where
  "dquote = CHR 0x22"

text \<open>Lines 3 to 7: the two branches of the conditional macro definition.\<close>

definition AC_SWIFT_PRIVATE :: "bool \<Rightarrow> string list" where
  "AC_SWIFT_PRIVATE has_attribute_swift_private =
     (if has_attribute_swift_private then [''swift_private''] else [])"

text \<open>Lines 9 and 10.\<close>

definition ACImageNameGoogleLogo :: "bool \<Rightarrow> decl" where
  "ACImageNameGoogleLogo sp =
     \<lparr> storage_static = True, const_qualified = True,
       ident = ''ACImageNameGoogleLogo'',
       attributes = AC_SWIFT_PRIVATE sp,
       initializer = ''GoogleLogo'',
       doc_comment =
         ''The '' @ [dquote] @ ''GoogleLogo'' @ [dquote] @ '' asset catalog image resource.'' \<rparr>"

text \<open>Lines 12 and 13.\<close>

definition ACImageNameOrbitalLogo :: "bool \<Rightarrow> decl" where
  "ACImageNameOrbitalLogo sp =
     \<lparr> storage_static = True, const_qualified = True,
       ident = ''ACImageNameOrbitalLogo'',
       attributes = AC_SWIFT_PRIVATE sp,
       initializer = ''OrbitalLogo'',
       doc_comment =
         ''The '' @ [dquote] @ ''OrbitalLogo'' @ [dquote] @ '' asset catalog image resource.'' \<rparr>"

text \<open>Lines 15 and 16.\<close>

definition ACImageNameOrbitalLogoDark :: "bool \<Rightarrow> decl" where
  "ACImageNameOrbitalLogoDark sp =
     \<lparr> storage_static = True, const_qualified = True,
       ident = ''ACImageNameOrbitalLogoDark'',
       attributes = AC_SWIFT_PRIVATE sp,
       initializer = ''OrbitalLogoDark'',
       doc_comment =
         ''The '' @ [dquote] @ ''OrbitalLogoDark'' @ [dquote] @ '' asset catalog image resource.'' \<rparr>"

text \<open>
  The header as a whole: its declarations in source order. The argument is the value of
  \<^verbatim>\<open>__has_attribute(swift_private)\<close> in the compiler that reads the header.
\<close>

definition GeneratedAssetSymbols :: "bool \<Rightarrow> decl list" where
  "GeneratedAssetSymbols sp =
     [ACImageNameGoogleLogo sp, ACImageNameOrbitalLogo sp, ACImageNameOrbitalLogoDark sp]"

subsection \<open>Reading the declarations\<close>

text \<open>The identifiers a translation unit obtains by importing the header.\<close>

definition exported :: "decl list \<Rightarrow> string list" where
  "exported ds = map ident ds"

text \<open>
  Evaluating an identifier: the value of the first declaration of that name, \<open>None\<close>
  for an undeclared name.
\<close>

definition lookup :: "decl list \<Rightarrow> string \<Rightarrow> string option" where
  "lookup ds i = map_option initializer (find (\<lambda>d. ident d = i) ds)"

text \<open>
  The resource name a documentation comment names: the text between its first two
  double quotes.
\<close>

definition quoted :: "string \<Rightarrow> string option" where
  "quoted s =
     (case dropWhile (\<lambda>c. c \<noteq> dquote) s of
        [] \<Rightarrow> None
      | q # r \<Rightarrow>
          (if dquote \<in> set r then Some (takeWhile (\<lambda>c. c \<noteq> dquote) r) else None))"

text \<open>Character classes, on the character code.\<close>

definition is_ascii_upper :: "char \<Rightarrow> bool" where
  "is_ascii_upper c = (65 \<le> (of_char c :: nat) \<and> (of_char c :: nat) \<le> 90)"

definition is_ascii_lower :: "char \<Rightarrow> bool" where
  "is_ascii_lower c = (97 \<le> (of_char c :: nat) \<and> (of_char c :: nat) \<le> 122)"

definition is_ascii_letter :: "char \<Rightarrow> bool" where
  "is_ascii_letter c = (is_ascii_upper c \<or> is_ascii_lower c)"

subsection \<open>Statements of a client over the declared names\<close>

text \<open>
  The header defines no function. What a translation unit that imports it can write
  about a declared name is a read of it or an assignment to it; the C rules for the
  declaration decide what each does. A name that is not declared is an error, and so is
  an assignment to an object whose declaration is \<^verbatim>\<open>const\<close>-qualified; an assignment to
  an object that is not would store the new value.
\<close>

datatype stmt = Read string | Assign string string

datatype error = UndeclaredIdentifier string | AssignmentToConst string

fun step :: "decl list \<Rightarrow> stmt \<Rightarrow> error + decl list" where
  "step ds (Read i) =
     (case find (\<lambda>d. ident d = i) ds of
        None \<Rightarrow> Inl (UndeclaredIdentifier i)
      | Some d \<Rightarrow> Inr ds)"
| "step ds (Assign i v) =
     (case find (\<lambda>d. ident d = i) ds of
        None \<Rightarrow> Inl (UndeclaredIdentifier i)
      | Some d \<Rightarrow>
          (if const_qualified d then Inl (AssignmentToConst i)
           else Inr (map (\<lambda>e. if ident e = i then e\<lparr>initializer := v\<rparr> else e) ds)))"

fun run :: "decl list \<Rightarrow> stmt list \<Rightarrow> error + decl list" where
  "run ds [] = Inr ds"
| "run ds (s # ss) = (case step ds s of Inl e \<Rightarrow> Inl e | Inr ds' \<Rightarrow> run ds' ss)"

section \<open>Auxiliary facts\<close>

lemmas header_defs =
  GeneratedAssetSymbols_def ACImageNameGoogleLogo_def ACImageNameOrbitalLogo_def
  ACImageNameOrbitalLogoDark_def AC_SWIFT_PRIVATE_def

lemma find_const:
  "list_all const_qualified ds \<Longrightarrow> find P ds = Some d \<Longrightarrow> const_qualified d"
  by (induction ds) (auto split: if_splits)

lemma step_const_unchanged:
  "list_all const_qualified ds \<Longrightarrow> step ds s = Inr ds' \<Longrightarrow> ds' = ds"
  by (cases s) (auto split: option.splits if_splits dest: find_const)

lemma run_const_unchanged:
  "list_all const_qualified ds \<Longrightarrow> run ds ss = Inr ds' \<Longrightarrow> ds' = ds"
proof (induction ss arbitrary: ds)
  case Nil
  then show ?case by simp
next
  case (Cons s ss)
  from Cons.prems(2) obtain ds1 where s1: "step ds s = Inr ds1" and r: "run ds1 ss = Inr ds'"
    by (auto split: sum.splits)
  from step_const_unchanged [OF Cons.prems(1) s1] have "ds1 = ds" .
  with r Cons.IH [OF Cons.prems(1)] show ?case by simp
qed

lemma header_all_const: "list_all const_qualified (GeneratedAssetSymbols sp)"
  by (simp add: header_defs)

lemma header_all_static: "list_all storage_static (GeneratedAssetSymbols sp)"
  by (simp add: header_defs)

lemma lookup_header:
  "lookup (GeneratedAssetSymbols sp) i =
     (if i = ''ACImageNameGoogleLogo'' then Some ''GoogleLogo''
      else if i = ''ACImageNameOrbitalLogo'' then Some ''OrbitalLogo''
      else if i = ''ACImageNameOrbitalLogoDark'' then Some ''OrbitalLogoDark''
      else None)"
  by (simp add: lookup_def header_defs)

lemma exported_header:
  "exported (GeneratedAssetSymbols sp) =
     [''ACImageNameGoogleLogo'', ''ACImageNameOrbitalLogo'', ''ACImageNameOrbitalLogoDark'']"
  by (simp add: exported_def header_defs)

lemma header_cases:
  "d \<in> set (GeneratedAssetSymbols sp) \<Longrightarrow>
     d = ACImageNameGoogleLogo sp \<or> d = ACImageNameOrbitalLogo sp \<or>
     d = ACImageNameOrbitalLogoDark sp"
  by (auto simp: GeneratedAssetSymbols_def)

section \<open>The claims\<close>

text \<open>
  Claim C1. The header declares exactly the three identifiers
  \<^verbatim>\<open>ACImageNameGoogleLogo\<close>, \<^verbatim>\<open>ACImageNameOrbitalLogo\<close> and
  \<^verbatim>\<open>ACImageNameOrbitalLogoDark\<close>; their values are \<^verbatim>\<open>GoogleLogo\<close>,
  \<^verbatim>\<open>OrbitalLogo\<close> and \<^verbatim>\<open>OrbitalLogoDark\<close> in that order; and the value of each
  declaration is the resource name quoted in its documentation comment. This holds in
  both branches of the macro.
\<close>

theorem exported_constants_exact:
  "set (exported (GeneratedAssetSymbols sp)) =
     {''ACImageNameGoogleLogo'', ''ACImageNameOrbitalLogo'', ''ACImageNameOrbitalLogoDark''}
   \<and> map (\<lambda>d. (ident d, initializer d)) (GeneratedAssetSymbols sp) =
       [(''ACImageNameGoogleLogo'', ''GoogleLogo''),
        (''ACImageNameOrbitalLogo'', ''OrbitalLogo''),
        (''ACImageNameOrbitalLogoDark'', ''OrbitalLogoDark'')]
   \<and> map (\<lambda>d. quoted (doc_comment d)) (GeneratedAssetSymbols sp) =
       map (\<lambda>d. Some (initializer d)) (GeneratedAssetSymbols sp)"
  by (simp add: exported_def header_defs quoted_def dquote_def)

text \<open>
  Claim C2. Two distinct declared identifiers never evaluate to the same string: the
  mapping from identifier to value is injective on the declared identifiers.
\<close>

theorem values_distinct:
  "i \<in> set (exported (GeneratedAssetSymbols sp)) \<Longrightarrow>
   j \<in> set (exported (GeneratedAssetSymbols sp)) \<Longrightarrow>
   i \<noteq> j \<Longrightarrow>
   lookup (GeneratedAssetSymbols sp) i \<noteq> lookup (GeneratedAssetSymbols sp) j"
  by (auto simp: exported_header lookup_header)

theorem values_distinct_witness:
  "''ACImageNameOrbitalLogo'' \<in> set (exported (GeneratedAssetSymbols True))
   \<and> ''ACImageNameOrbitalLogoDark'' \<in> set (exported (GeneratedAssetSymbols True))
   \<and> ''ACImageNameOrbitalLogo'' \<noteq> ''ACImageNameOrbitalLogoDark''
   \<and> lookup (GeneratedAssetSymbols True) ''ACImageNameOrbitalLogo''
       \<noteq> lookup (GeneratedAssetSymbols True) ''ACImageNameOrbitalLogoDark''"
  using values_distinct [of "''ACImageNameOrbitalLogo''" True "''ACImageNameOrbitalLogoDark''"]
  by (simp add: exported_header)

text \<open>
  Claim C3. The string that initialises a declaration of the header is never empty.
\<close>

theorem values_nonempty:
  "d \<in> set (GeneratedAssetSymbols sp) \<Longrightarrow> initializer d \<noteq> [] \<and> 0 < length (initializer d)"
  by (auto simp: header_defs)

theorem values_nonempty_witness:
  "ACImageNameGoogleLogo False \<in> set (GeneratedAssetSymbols False)
   \<and> initializer (ACImageNameGoogleLogo False) \<noteq> []
   \<and> 0 < length (initializer (ACImageNameGoogleLogo False))"
  using values_nonempty [of "ACImageNameGoogleLogo False" False]
  by (simp add: GeneratedAssetSymbols_def)

text \<open>
  Claim C4. Each identifier is declared once, every declaration is \<^verbatim>\<open>const\<close>, and
  whatever sequence of reads and assignments a client runs over the declared names, if
  it is accepted at all then the declarations after it are the declarations before it:
  every identifier still evaluates to the value the header gave it.
\<close>

theorem constants_immutable:
  "distinct (exported (GeneratedAssetSymbols sp))
   \<and> list_all const_qualified (GeneratedAssetSymbols sp)
   \<and> (run (GeneratedAssetSymbols sp) ss = Inr ds' \<longrightarrow>
        ds' = GeneratedAssetSymbols sp
        \<and> (\<forall>i. lookup ds' i = lookup (GeneratedAssetSymbols sp) i))"
  using run_const_unchanged [OF header_all_const, of sp ss ds']
  by (auto simp: exported_header header_all_const)

theorem constants_immutable_witness:
  "run (GeneratedAssetSymbols True)
       [Read ''ACImageNameGoogleLogo'', Read ''ACImageNameOrbitalLogoDark'',
        Read ''ACImageNameGoogleLogo'']
     = Inr (GeneratedAssetSymbols True)
   \<and> lookup (GeneratedAssetSymbols True) ''ACImageNameOrbitalLogoDark''
       = Some ''OrbitalLogoDark''"
  using constants_immutable [of True "[Read ''ACImageNameGoogleLogo'',
     Read ''ACImageNameOrbitalLogoDark'', Read ''ACImageNameGoogleLogo'']"
     "GeneratedAssetSymbols True"]
  by (simp add: header_defs lookup_def)

text \<open>
  Claim C5. Evaluating a declared identifier never fails: for each identifier the
  header declares, the lookup returns \<open>Some\<close> string and not \<open>None\<close>.
\<close>

theorem lookup_total:
  "i \<in> set (exported (GeneratedAssetSymbols sp)) \<Longrightarrow>
   (\<exists>v. lookup (GeneratedAssetSymbols sp) i = Some v)
   \<and> lookup (GeneratedAssetSymbols sp) i \<noteq> None"
  by (auto simp: exported_header lookup_header)

theorem lookup_total_witness:
  "''ACImageNameGoogleLogo'' \<in> set (exported (GeneratedAssetSymbols False))
   \<and> lookup (GeneratedAssetSymbols False) ''ACImageNameGoogleLogo'' = Some ''GoogleLogo''"
  using lookup_total [of "''ACImageNameGoogleLogo''" False]
  by (simp add: exported_header lookup_header)

text \<open>
  Claim C6. Every declaration is \<^verbatim>\<open>static\<close> and \<^verbatim>\<open>const\<close>, so the header
  introduces no object that is both shared and mutable; and two evaluations of one
  identifier give equal strings, whatever accepted statements ran before each of them
  and whichever branch of the macro each compilation took.
\<close>

theorem read_deterministic:
  "list_all (\<lambda>d. storage_static d \<and> const_qualified d) (GeneratedAssetSymbols sp1)
   \<and> (run (GeneratedAssetSymbols sp1) ss1 = Inr ds1 \<longrightarrow>
      run (GeneratedAssetSymbols sp2) ss2 = Inr ds2 \<longrightarrow>
      lookup ds1 i = lookup ds2 i)"
proof
  show "list_all (\<lambda>d. storage_static d \<and> const_qualified d) (GeneratedAssetSymbols sp1)"
    by (simp add: header_defs)
next
  show "run (GeneratedAssetSymbols sp1) ss1 = Inr ds1 \<longrightarrow>
        run (GeneratedAssetSymbols sp2) ss2 = Inr ds2 \<longrightarrow> lookup ds1 i = lookup ds2 i"
  proof (intro impI)
    assume r1: "run (GeneratedAssetSymbols sp1) ss1 = Inr ds1"
      and r2: "run (GeneratedAssetSymbols sp2) ss2 = Inr ds2"
    have "ds1 = GeneratedAssetSymbols sp1"
      using run_const_unchanged [OF header_all_const r1] .
    moreover have "ds2 = GeneratedAssetSymbols sp2"
      using run_const_unchanged [OF header_all_const r2] .
    ultimately show "lookup ds1 i = lookup ds2 i"
      by (simp add: lookup_header)
  qed
qed

theorem read_deterministic_witness:
  "run (GeneratedAssetSymbols True) [Read ''ACImageNameOrbitalLogo'']
     = Inr (GeneratedAssetSymbols True)
   \<and> run (GeneratedAssetSymbols False) [] = Inr (GeneratedAssetSymbols False)
   \<and> lookup (GeneratedAssetSymbols True) ''ACImageNameOrbitalLogo''
       = lookup (GeneratedAssetSymbols False) ''ACImageNameOrbitalLogo''"
  using read_deterministic [of True "[Read ''ACImageNameOrbitalLogo'']"
     "GeneratedAssetSymbols True" False "[]" "GeneratedAssetSymbols False"
     "''ACImageNameOrbitalLogo''"]
  by (simp add: header_defs)

text \<open>
  Claim C7. The identifier of each declaration is \<^verbatim>\<open>ACImageName\<close> followed by its
  value; dropping those eleven characters from the identifier gives the value back; and
  a declaration of the header with the same value has the same identifier.
\<close>

theorem ident_prefix_roundtrip:
  "d \<in> set (GeneratedAssetSymbols sp) \<Longrightarrow>
     ident d = ''ACImageName'' @ initializer d
     \<and> drop (length ''ACImageName'') (ident d) = initializer d
     \<and> (\<forall>e \<in> set (GeneratedAssetSymbols sp).
          initializer e = initializer d \<longrightarrow> ident e = ident d)"
  by (auto simp: header_defs)

theorem ident_prefix_roundtrip_witness:
  "ACImageNameOrbitalLogoDark True \<in> set (GeneratedAssetSymbols True)
   \<and> ident (ACImageNameOrbitalLogoDark True) = ''ACImageName'' @ ''OrbitalLogoDark''
   \<and> drop (length ''ACImageName'') (ident (ACImageNameOrbitalLogoDark True))
       = ''OrbitalLogoDark''
   \<and> initializer (GeneratedAssetSymbols True ! 2) = initializer (ACImageNameOrbitalLogoDark True)
   \<and> ident (GeneratedAssetSymbols True ! 2) = ''ACImageNameOrbitalLogoDark''"
  using ident_prefix_roundtrip [of "ACImageNameOrbitalLogoDark True" True]
  by (simp add: header_defs)

text \<open>
  Claim C8. The declarations \<^verbatim>\<open>ACImageNameOrbitalLogo\<close> and
  \<^verbatim>\<open>ACImageNameOrbitalLogoDark\<close> are distinct and the value of the first,
  \<^verbatim>\<open>OrbitalLogo\<close>, is a strict prefix of the value of the second,
  \<^verbatim>\<open>OrbitalLogoDark\<close>. Selecting declarations by equality with \<^verbatim>\<open>OrbitalLogo\<close>
  gives one identifier; selecting them by having \<^verbatim>\<open>OrbitalLogo\<close> as a prefix gives two.
\<close>

theorem orbital_logo_strict_prefix:
  "ACImageNameOrbitalLogo sp \<in> set (GeneratedAssetSymbols sp)
   \<and> ACImageNameOrbitalLogoDark sp \<in> set (GeneratedAssetSymbols sp)
   \<and> ident (ACImageNameOrbitalLogo sp) \<noteq> ident (ACImageNameOrbitalLogoDark sp)
   \<and> initializer (ACImageNameOrbitalLogo sp) = ''OrbitalLogo''
   \<and> initializer (ACImageNameOrbitalLogoDark sp) = ''OrbitalLogoDark''
   \<and> strict_prefix (initializer (ACImageNameOrbitalLogo sp))
        (initializer (ACImageNameOrbitalLogoDark sp))
   \<and> map ident (filter (\<lambda>d. initializer d = ''OrbitalLogo'') (GeneratedAssetSymbols sp))
       = [''ACImageNameOrbitalLogo'']
   \<and> map ident (filter (\<lambda>d. prefix ''OrbitalLogo'' (initializer d)) (GeneratedAssetSymbols sp))
       = [''ACImageNameOrbitalLogo'', ''ACImageNameOrbitalLogoDark'']"
  by (simp add: header_defs)

text \<open>
  Claim C9. The value of each declaration is made of ASCII letters only, and its first
  character is an upper-case letter.
\<close>

theorem values_ascii_letters:
  "d \<in> set (GeneratedAssetSymbols sp) \<Longrightarrow>
     list_all is_ascii_letter (initializer d)
     \<and> (case initializer d of [] \<Rightarrow> False | c # cs \<Rightarrow> is_ascii_upper c)"
  by (auto simp: header_defs is_ascii_letter_def is_ascii_upper_def is_ascii_lower_def)

theorem values_ascii_letters_witness:
  "ACImageNameOrbitalLogoDark False \<in> set (GeneratedAssetSymbols False)
   \<and> list_all is_ascii_letter ''OrbitalLogoDark''
   \<and> is_ascii_upper CHR ''O''"
  using values_ascii_letters [of "ACImageNameOrbitalLogoDark False" False]
  by (simp add: header_defs)

end
